theory Spec2Isabelle
  imports Complex_Main "HOL-Library.Multiset"
begin

section \<open>Values shared by the two applications\<close>

text \<open>
  Amounts and prices are Python \<open>Decimal\<close> values. Every finite \<open>Decimal\<close> is a rational
  number and \<open>Decimal\<close> comparison and addition are exact on them, so amounts are modelled
  as \<^typ>\<open>rat\<close>; \<open>Decimal('10.00')\<close> is the rational \<open>10\<close>. The special values (NaN,
  infinities) are outside the model.

  \<open>float(amount)\<close> is the only floating-point operation of the code. It is kept abstract:
  every function that calls it takes the conversion \<open>to_float\<close> as a parameter, and nothing
  is assumed about it.
\<close>

text \<open>\<open>int(d)\<close> on a \<open>Decimal\<close> truncates toward zero.\<close>

definition py_int :: "rat \<Rightarrow> int" where
  "py_int r = (if r < 0 then - \<lfloor>- r\<rfloor> else \<lfloor>r\<rfloor>)"

text \<open>\<open>str(n)\<close> on an \<open>int\<close>, as an f-string field renders it: decimal digits, a leading
  minus sign for a negative number.\<close>

definition digit_char :: "nat \<Rightarrow> char" where
  "digit_char d = ''0123456789'' ! d"

function str_nat :: "nat \<Rightarrow> string" where
  "str_nat n = (if n < 10 then [digit_char n] else str_nat (n div 10) @ [digit_char (n mod 10)])"
  by pat_completeness auto
termination
  by (relation "measure (\<lambda>n. n)") auto

declare str_nat.simps [simp del]

definition str_int :: "int \<Rightarrow> string" where
  "str_int i = (if i < 0 then CHR ''-'' # str_nat (nat (- i)) else str_nat (nat i))"

text \<open>\<open>sum(iterable, start)\<close>: a left fold of \<open>+\<close> from \<open>start\<close>.\<close>

definition py_sum :: "'a::plus list \<Rightarrow> 'a \<Rightarrow> 'a" where
  "py_sum xs start = foldl (+) start xs"


section \<open>Payment gateways (\<open>song_app/payment_gateways.py\<close>)\<close>

text \<open>The two concrete subclasses of the abstract class \<open>PaymentGateway\<close>.\<close>

datatype PaymentGateway = CheapPaymentGateway | ExpensivePaymentGateway

datatype py_error = ValueError string

text \<open>
  The dictionary returned by \<open>process_payment\<close>. The key \<open>premium_features\<close> is present
  only in the result of the expensive gateway, hence the \<open>option\<close>.
\<close>

record 'f payment_result =
  success :: bool
  gateway :: string
  amount :: 'f
  transaction_id :: string
  status :: string
  song_ids :: "int list"
  message :: string
  premium_features :: "bool option"

text \<open>
  \<open>process_payment\<close>, one equation per class. \<open>id(object())\<close> is the identity of a
  temporary object: a number chosen by the runtime, not by the code. It is the argument
  \<open>oid\<close> of the model.
\<close>

fun process_payment ::
  "(rat \<Rightarrow> 'f) \<Rightarrow> nat \<Rightarrow> PaymentGateway \<Rightarrow> rat \<Rightarrow> int list \<Rightarrow> py_error + 'f payment_result"
where
  "process_payment to_float oid CheapPaymentGateway amt ids =
     (if amt \<ge> 10
      then Inl (ValueError ''CheapPaymentGateway can only process amounts under $10'')
      else Inr \<lparr> success = True,
                 gateway = ''CheapPaymentGateway'',
                 amount = to_float amt,
                 transaction_id = ''CHEAP-'' @ str_nat oid @ ''-'' @ str_int (py_int (amt * 100)),
                 status = ''completed'',
                 song_ids = ids,
                 message = ''Payment processed successfully via CheapPaymentGateway'',
                 premium_features = None \<rparr>)"
| "process_payment to_float oid ExpensivePaymentGateway amt ids =
     (if amt < 10
      then Inl (ValueError ''ExpensivePaymentGateway should be used for amounts $10 or over'')
      else Inr \<lparr> success = True,
                 gateway = ''ExpensivePaymentGateway'',
                 amount = to_float amt,
                 transaction_id = ''EXP-'' @ str_nat oid @ ''-'' @ str_int (py_int (amt * 100)),
                 status = ''completed'',
                 song_ids = ids,
                 message = ''Payment processed successfully via ExpensivePaymentGateway'',
                 premium_features = Some True \<rparr>)"

definition get_payment_gateway :: "rat \<Rightarrow> PaymentGateway" where
  "get_payment_gateway amt =
     (if amt \<ge> 10 then ExpensivePaymentGateway else CheapPaymentGateway)"

text \<open>The class name a result must carry.\<close>

fun gateway_name :: "PaymentGateway \<Rightarrow> string" where
  "gateway_name CheapPaymentGateway = ''CheapPaymentGateway''"
| "gateway_name ExpensivePaymentGateway = ''ExpensivePaymentGateway''"

definition raises :: "py_error + 'a \<Rightarrow> bool" where
  "raises r = (case r of Inl _ \<Rightarrow> True | Inr _ \<Rightarrow> False)"


section \<open>Songs and the purchase endpoint (\<open>song_app/models.py\<close>, \<open>song_app/views.py\<close>)\<close>

text \<open>
  A row of the \<open>Song\<close> table. \<open>id\<close> and \<open>length\<close> are renamed \<open>song_id\<close> and
  \<open>song_length\<close>; timestamps are numbers. \<open>SongSerializer\<close> lists all seven fields, so
  a serialised song is the row itself.
\<close>

record song =
  song_id :: int
  title :: string
  song_length :: int
  date_released :: int
  price :: rat
  created_at :: int
  updated_at :: int

text \<open>
  A parsed JSON value: the request body (\<open>request.data\<close>), or the value stored under
  a key of it. An object is the list of its members in the order of the text. The
  endpoint documents \<open>song_ids\<close> as a list of song identifiers, so the elements of a
  list are integers; every other value keeps the shape that decides its type and its
  truth value.
\<close>

datatype json =
    JNull
  | JBool bool
  | JNum rat
  | JStr string
  | JList "int list"
  | JObj "(string \<times> json) list"

text \<open>Python's truth value (\<open>not song_ids\<close>) and \<open>isinstance(song_ids, list)\<close>.\<close>

fun truthy :: "json \<Rightarrow> bool" where
  "truthy JNull = False"
| "truthy (JBool b) = b"
| "truthy (JNum n) = (n \<noteq> 0)"
| "truthy (JStr s) = (s \<noteq> [])"
| "truthy (JList xs) = (xs \<noteq> [])"
| "truthy (JObj kvs) = (kvs \<noteq> [])"

fun isinstance_list :: "json \<Rightarrow> bool" where
  "isinstance_list (JList xs) = True"
| "isinstance_list v = False"

text \<open>\<open>Response(data, status=...)\<close>.\<close>

datatype 'b Response = Response (data: 'b) (status_code: nat)

text \<open>
  The three bodies of the purchase endpoint: \<open>{'error': message}\<close>; the not-found body,
  whose message is \<open>'Songs not found for IDs: '\<close> followed by Python's rendering of the
  set \<open>missing_ids\<close> (kept as the set itself); and the body of a completed purchase.
\<close>

record 'f purchase_ok =
  ok_success :: bool
  ok_message :: string
  total_price :: 'f
  songs_purchased :: "song list"
  payment_info :: "'f payment_result"

datatype 'f purchase_data =
    ErrorData string
  | NotFoundData "int set"
  | PurchaseData "'f purchase_ok"

text \<open>
  \<open>Song.objects.filter(id__in=song_ids)\<close>: the rows whose primary key is among the
  requested identifiers, each row once, in the order of the table.
\<close>

definition filter_id_in :: "song list \<Rightarrow> int list \<Rightarrow> song list" where
  "filter_id_in Song_objects ids = filter (\<lambda>s. song_id s \<in> set ids) Song_objects"

text \<open>The \<open>try\<close> block of \<open>purchase\<close>; any exception becomes a 500 response with its message.\<close>

definition purchase_try ::
  "(rat \<Rightarrow> 'f) \<Rightarrow> nat \<Rightarrow> song list \<Rightarrow> int list \<Rightarrow> 'f purchase_data Response" where
  "purchase_try to_float oid Song_objects ids =
     (let songs = filter_id_in Song_objects ids in
      if length songs \<noteq> length ids
      then (let missing_ids = set ids - set (map song_id songs)
            in Response (NotFoundData missing_ids) 404)
      else (let total = py_sum (map price songs) 0;
                gw = get_payment_gateway total
            in case process_payment to_float oid gw total ids of
                 Inl (ValueError msg) \<Rightarrow> Response (ErrorData msg) 500
               | Inr payment_result \<Rightarrow>
                   Response (PurchaseData
                     \<lparr> ok_success = True,
                       ok_message = ''Purchase completed successfully'',
                       total_price = to_float total,
                       songs_purchased = songs,
                       payment_info = payment_result \<rparr>) 200))"

text \<open>
  \<open>d.get(key, default)\<close> on the dictionary parsed from a JSON object: of two members with
  the same name the later one is kept.
\<close>

definition dict_get :: "(string \<times> json) list \<Rightarrow> string \<Rightarrow> json \<Rightarrow> json" where
  "dict_get d k dflt = (case map_of (rev d) k of None \<Rightarrow> dflt | Some v \<Rightarrow> v)"

text \<open>An exception that leaves the view: nothing in the view catches it.\<close>

datatype unhandled = AttributeError

text \<open>
  \<open>SongViewSet.purchase\<close>. \<open>request.data\<close> is the parsed request body. The first
  statement, \<open>request.data.get('song_ids', [])\<close>, stands before the \<open>try\<close> block: on a
  body that is a JSON object it reads the key with the empty list as default, and on any
  other body (a list, a string, a number, a boolean, \<open>null\<close>) the value has no method
  \<open>get\<close> and the call raises \<open>AttributeError\<close>, which leaves the view.
  The endpoint writes nothing: the table is an argument and only a response is returned.
\<close>

definition purchase ::
  "(rat \<Rightarrow> 'f) \<Rightarrow> nat \<Rightarrow> song list \<Rightarrow> json \<Rightarrow> unhandled + 'f purchase_data Response" where
  "purchase to_float oid Song_objects request_data =
     (case request_data of
        JObj d \<Rightarrow>
          (let ids_value = dict_get d ''song_ids'' (JList [])
           in if \<not> truthy ids_value
              then Inr (Response (ErrorData ''Please provide song_ids list'') 400)
              else (case ids_value of
                      JList ids \<Rightarrow> Inr (purchase_try to_float oid Song_objects ids)
                    | _ \<Rightarrow> Inr (Response (ErrorData ''song_ids must be a list'') 400)))
      | _ \<Rightarrow> Inl AttributeError)"

text \<open>The songs of the repository's purchase tests, with the keys 1 to 5.\<close>

definition mk_song :: "int \<Rightarrow> string \<Rightarrow> int \<Rightarrow> rat \<Rightarrow> song" where
  "mk_song i t l p =
     \<lparr> song_id = i, title = t, song_length = l, date_released = 0, price = p,
       created_at = 0, updated_at = 0 \<rparr>"

definition test_songs :: "song list" where
  "test_songs =
     [mk_song 5 ''5 Dollar Song 2'' 200 5,
      mk_song 4 ''5 Dollar Song'' 180 5,
      mk_song 3 ''Expensive Song'' 240 12,
      mk_song 2 ''Cheap Song 2'' 200 4,
      mk_song 1 ''Cheap Song 1'' 180 3]"


section \<open>Playlists (\<open>playlist_app/models.py\<close>, \<open>playlist_app/serializers.py\<close>)\<close>

text \<open>
  A row of the \<open>Playlist\<close> table together with its rows of the many-to-many table:
  \<open>members\<close> is the set of primary keys of the songs of the playlist. The association
  has no order and no duplicates.
\<close>

record playlist =
  playlist_name :: string
  members :: "int set"
  playlist_created_at :: int
  playlist_updated_at :: int

text \<open>The database: the \<open>Song\<close> table in the order of its \<open>Meta.ordering\<close>, and the
  playlists by primary key.\<close>

record db =
  Song_table :: "song list"
  Playlist_table :: "int \<rightharpoonup> playlist"

text \<open>\<open>self.songs.all()\<close>: the join of the association with the \<open>Song\<close> table.\<close>

definition songs_all :: "db \<Rightarrow> playlist \<Rightarrow> song list" where
  "songs_all d self = filter (\<lambda>s. song_id s \<in> members self) (Song_table d)"

definition get_total_duration :: "db \<Rightarrow> playlist \<Rightarrow> int" where
  "get_total_duration d self = py_sum (map song_length (songs_all d self)) 0"

definition get_total_price :: "db \<Rightarrow> playlist \<Rightarrow> rat" where
  "get_total_price d self = py_sum (map price (songs_all d self)) 0"

text \<open>\<open>PlaylistSerializer(playlist).data\<close>: the fields of \<open>Meta.fields\<close> that are not
  write-only, the two totals through the serializer's method fields.\<close>

record 'f playlist_data =
  pl_id :: int
  pl_name :: string
  pl_songs :: "song list"
  pl_total_duration :: int
  pl_total_price :: 'f
  pl_created_at :: int
  pl_updated_at :: int

definition PlaylistSerializer :: "(rat \<Rightarrow> 'f) \<Rightarrow> db \<Rightarrow> int \<Rightarrow> playlist \<Rightarrow> 'f playlist_data" where
  "PlaylistSerializer to_float d pk obj =
     \<lparr> pl_id = pk,
       pl_name = playlist_name obj,
       pl_songs = songs_all d obj,
       pl_total_duration = get_total_duration d obj,
       pl_total_price = to_float (get_total_price d obj),
       pl_created_at = playlist_created_at obj,
       pl_updated_at = playlist_updated_at obj \<rparr>"


section \<open>The shuffle endpoint (\<open>playlist_app/views.py\<close>)\<close>

text \<open>
  \<open>random.shuffle(x)\<close> of the Python library: for \<open>i\<close> from \<open>len(x) - 1\<close> down to \<open>1\<close>
  it draws \<open>j = randbelow(i + 1)\<close> and swaps \<open>x[i]\<close> and \<open>x[j]\<close>. The generator is the
  argument \<open>rnd\<close>: the draw of round \<open>i\<close> is \<open>rnd i\<close>, reduced below \<open>i + 1\<close> as
  \<open>randbelow\<close> guarantees.
\<close>

fun shuffle_loop :: "(nat \<Rightarrow> nat) \<Rightarrow> nat \<Rightarrow> 'a list \<Rightarrow> 'a list" where
  "shuffle_loop rnd 0 x = x"
| "shuffle_loop rnd (Suc k) x =
     (let i = Suc k; j = rnd i mod (i + 1)
      in shuffle_loop rnd k (x[i := x ! j, j := x ! i]))"

definition random_shuffle :: "(nat \<Rightarrow> nat) \<Rightarrow> 'a list \<Rightarrow> 'a list" where
  "random_shuffle rnd x = shuffle_loop rnd (length x - 1) x"

text \<open>\<open>playlist.songs.clear()\<close> and \<open>playlist.songs.set(objs)\<close> of the related manager:
  the first deletes every association row of the playlist, the second leaves exactly the
  rows of the given songs.\<close>

definition songs_clear :: "playlist \<Rightarrow> playlist" where
  "songs_clear self = self\<lparr>members := {}\<rparr>"

definition songs_set :: "playlist \<Rightarrow> song list \<Rightarrow> playlist" where
  "songs_set self objs = self\<lparr>members := set (map song_id objs)\<rparr>"

definition save_playlist :: "db \<Rightarrow> int \<Rightarrow> playlist \<Rightarrow> db" where
  "save_playlist d pk obj = d\<lparr>Playlist_table := (Playlist_table d)(pk \<mapsto> obj)\<rparr>"

datatype http_error = NotFound string

text \<open>The body of a shuffle response; the early return has no \<open>playlist\<close> key.\<close>

record 'f shuffle_data =
  sh_message :: string
  sh_playlist :: "'f playlist_data option"

text \<open>\<open>PlaylistViewSet.shuffle\<close>: the response, or the \<open>NotFound\<close> it raises, and the
  database it leaves.\<close>

definition shuffle ::
  "(rat \<Rightarrow> 'f) \<Rightarrow> (nat \<Rightarrow> nat) \<Rightarrow> db \<Rightarrow> int \<Rightarrow> (http_error + 'f shuffle_data Response) \<times> db"
where
  "shuffle to_float rnd d pk =
     (case Playlist_table d pk of
        None \<Rightarrow> (Inl (NotFound ''Playlist not found''), d)
      | Some pl \<Rightarrow>
          (let songs = songs_all d pl in
           if length songs < 2
           then (Inr (Response
                   \<lparr> sh_message = ''Playlist has fewer than 2 songs, no shuffle needed'',
                     sh_playlist = None \<rparr> 200), d)
           else (let shuffled = random_shuffle rnd songs;
                     pl1 = songs_clear pl;
                     d1 = save_playlist d pk pl1;
                     pl2 = songs_set pl1 shuffled;
                     d2 = save_playlist d1 pk pl2
                 in (Inr (Response
                       \<lparr> sh_message = ''Playlist shuffled successfully'',
                         sh_playlist = Some (PlaylistSerializer to_float d2 pk pl2) \<rparr> 200),
                     d2))))"

text \<open>A database for the examples: the songs of the purchase tests, a playlist of three
  of them, a playlist of one and an empty one.\<close>

definition mk_playlist :: "string \<Rightarrow> int set \<Rightarrow> playlist" where
  "mk_playlist n ms =
     \<lparr> playlist_name = n, members = ms, playlist_created_at = 0, playlist_updated_at = 0 \<rparr>"

definition test_db :: db where
  "test_db =
     \<lparr> Song_table = test_songs,
       Playlist_table =
         [1 \<mapsto> mk_playlist ''My Playlist'' {1, 2, 3},
          2 \<mapsto> mk_playlist ''Single Song Playlist'' {1},
          3 \<mapsto> mk_playlist ''Empty Playlist'' {}] \<rparr>"


section \<open>The gateway selector\<close>

text \<open>
  C1. For every amount \<open>p\<close> the selector returns the cheap (basic) gateway exactly when
  \<open>p < 10.00\<close> and the expensive (premium) gateway exactly when \<open>p \<ge> 10.00\<close>; the
  boundary \<open>p = 10.00\<close> selects the expensive gateway.
\<close>

theorem get_payment_gateway_threshold:
  "(get_payment_gateway p = CheapPaymentGateway) = (p < 10) \<and>
   (get_payment_gateway p = ExpensivePaymentGateway) = (p \<ge> 10) \<and>
   get_payment_gateway 10 = ExpensivePaymentGateway"
  by (simp add: get_payment_gateway_def not_le)

text \<open>
  C2. The cheap gateway raises its \<open>ValueError\<close> if and only if the amount is at least
  \<open>10.00\<close>, the expensive gateway if and only if the amount is below \<open>10.00\<close>; a call that
  does not raise returns a result with \<open>success\<close>, status \<open>completed\<close>, the name of the
  gateway, the amount (as \<open>float(amount)\<close>) and the identifier list it was given.
\<close>

theorem process_payment_band:
  "raises (process_payment to_float oid CheapPaymentGateway a ids) = (a \<ge> 10) \<and>
   raises (process_payment to_float oid ExpensivePaymentGateway a ids) = (a < 10) \<and>
   (\<forall>g. \<not> raises (process_payment to_float oid g a ids) \<longrightarrow>
      (\<exists>r. process_payment to_float oid g a ids = Inr r \<and>
           success r \<and> status r = ''completed'' \<and> gateway r = gateway_name g \<and>
           amount r = to_float a \<and> song_ids r = ids))"
proof (intro conjI allI impI)
  show "raises (process_payment to_float oid CheapPaymentGateway a ids) = (a \<ge> 10)"
    by (simp add: raises_def)
  show "raises (process_payment to_float oid ExpensivePaymentGateway a ids) = (a < 10)"
    by (simp add: raises_def)
next
  fix g
  assume ok: "\<not> raises (process_payment to_float oid g a ids)"
  show "\<exists>r. process_payment to_float oid g a ids = Inr r \<and>
           success r \<and> status r = ''completed'' \<and> gateway r = gateway_name g \<and>
           amount r = to_float a \<and> song_ids r = ids"
  proof (cases g)
    case CheapPaymentGateway
    with ok have "\<not> a \<ge> 10" by (simp add: raises_def split: if_splits)
    with CheapPaymentGateway show ?thesis by simp
  next
    case ExpensivePaymentGateway
    with ok have "\<not> a < 10" by (simp add: raises_def split: if_splits)
    with ExpensivePaymentGateway show ?thesis by simp
  qed
qed

theorem process_payment_band_witness:
  "\<not> raises (process_payment (\<lambda>r. r) 7 CheapPaymentGateway (999 / 100) [1, 2]) \<and>
   (\<exists>r. process_payment (\<lambda>r. r) 7 CheapPaymentGateway (999 / 100) [1, 2] = Inr r \<and>
        success r \<and> status r = ''completed'' \<and> gateway r = ''CheapPaymentGateway'' \<and>
        amount r = 999 / 100 \<and> song_ids r = [1, 2])"
proof -
  have ok: "\<not> raises (process_payment (\<lambda>r. r) 7 CheapPaymentGateway (999 / 100 :: rat) [1, 2])"
    by (simp add: raises_def)
  from process_payment_band [of "\<lambda>r. r" 7 "999 / 100" "[1, 2]"] ok
  show ?thesis by (metis gateway_name.simps(1))
qed

text \<open>
  C6. Whatever the total price \<open>p\<close>, the gateway the selector returns for \<open>p\<close> accepts
  \<open>p\<close>: \<open>process_payment\<close> on it returns a result and never raises the \<open>ValueError\<close> of
  the price-band check.
\<close>

theorem selected_gateway_never_raises:
  "\<not> raises (process_payment to_float oid (get_payment_gateway p) p ids) \<and>
   (\<exists>r. process_payment to_float oid (get_payment_gateway p) p ids = Inr r)"
  by (simp add: get_payment_gateway_def raises_def)


section \<open>The not-found check of the purchase endpoint\<close>

lemma py_sum_sum_list: "py_sum xs (s::'a::monoid_add) = s + sum_list xs"
  unfolding py_sum_def by (induction xs arbitrary: s) (simp_all add: add.assoc)

text \<open>
  With unique primary keys, the number of rows found equals the number of requested
  identifiers exactly when the request names each identifier once and every identifier is
  stored.
\<close>

lemma length_filter_id_in:
  assumes "distinct (map song_id S)"
  shows "(length (filter_id_in S ids) = length ids) =
         (distinct ids \<and> set ids \<subseteq> song_id ` set S)"
proof -
  let ?A = "set ids" and ?I = "song_id ` set S"
  have d: "distinct (map song_id (filter_id_in S ids))"
    using assms by (simp add: filter_id_in_def distinct_map_filter)
  have s: "set (map song_id (filter_id_in S ids)) = ?A \<inter> ?I"
    by (auto simp: filter_id_in_def)
  have len: "length (filter_id_in S ids) = card (?A \<inter> ?I)"
    using distinct_card[OF d] s by simp
  have le1: "card (?A \<inter> ?I) \<le> card ?A"
    by (simp add: card_mono)
  have le2: "card ?A \<le> length ids"
    by (rule card_length)
  show ?thesis
  proof
    assume eq: "length (filter_id_in S ids) = length ids"
    with len le1 le2 have c1: "card ?A = length ids" and c2: "card (?A \<inter> ?I) = card ?A"
      by simp_all
    from c1 have "distinct ids" by (rule card_distinct)
    moreover from c2 have "?A \<inter> ?I = ?A"
      by (intro card_subset_eq) simp_all
    ultimately show "distinct ids \<and> ?A \<subseteq> ?I" by blast
  next
    assume h: "distinct ids \<and> ?A \<subseteq> ?I"
    then have "?A \<inter> ?I = ?A" by blast
    with len h show "length (filter_id_in S ids) = length ids"
      by (simp add: distinct_card)
  qed
qed

lemma purchase_JList:
  "ids \<noteq> [] \<Longrightarrow>
   purchase to_float oid S (JObj [(''song_ids'', JList ids)]) =
     Inr (purchase_try to_float oid S ids)"
  by (simp add: purchase_def dict_get_def)

text \<open>
  What the endpoint does on a non-empty list of identifiers, over a table with unique
  primary keys: it answers 404 exactly when an identifier is repeated or not stored, and
  the body then holds the requested identifiers that are not stored.
\<close>

lemma purchase_not_found_iff:
  assumes "distinct (map song_id S)" and "ids \<noteq> []"
  shows "(\<exists>m. purchase to_float oid S (JObj [(''song_ids'', JList ids)]) = Inr (Response (NotFoundData m) 404)) =
         (\<not> distinct ids \<or> \<not> set ids \<subseteq> song_id ` set S)"
    and "purchase to_float oid S (JObj [(''song_ids'', JList ids)]) = Inr (Response (NotFoundData m) 404) \<Longrightarrow>
         m = set ids - song_id ` set S"
proof -
  have found: "set (map song_id (filter_id_in S ids)) = set ids \<inter> song_id ` set S"
    by (auto simp: filter_id_in_def)
  show "(\<exists>m. purchase to_float oid S (JObj [(''song_ids'', JList ids)]) = Inr (Response (NotFoundData m) 404)) =
         (\<not> distinct ids \<or> \<not> set ids \<subseteq> song_id ` set S)"
    using length_filter_id_in[OF assms(1), of ids]
    by (auto simp: purchase_JList[OF assms(2)] purchase_try_def Let_def
             split: sum.splits py_error.splits)
  assume "purchase to_float oid S (JObj [(''song_ids'', JList ids)]) = Inr (Response (NotFoundData m) 404)"
  then have "m = set ids - set (map song_id (filter_id_in S ids))"
    by (auto simp: purchase_JList[OF assms(2)] purchase_try_def Let_def
             split: if_splits sum.splits py_error.splits)
  then show "m = set ids - song_id ` set S"
    unfolding found by blast
qed

text \<open>
  A request that names each identifier once, all of them stored, is paid: the response is
  200 and carries the float of the exact sum of the prices of the rows found, these rows,
  and the result of the gateway selected for that sum.
\<close>

lemma purchase_distinct_ids:
  assumes "distinct (map song_id S)" and "ids \<noteq> []"
      and "distinct ids" and "set ids \<subseteq> song_id ` set S"
  shows "\<exists>r. process_payment to_float oid
               (get_payment_gateway (sum_list (map price (filter_id_in S ids))))
               (sum_list (map price (filter_id_in S ids))) ids = Inr r \<and>
             purchase to_float oid S (JObj [(''song_ids'', JList ids)]) =
               Inr (Response (PurchaseData
                 \<lparr> ok_success = True,
                   ok_message = ''Purchase completed successfully'',
                   total_price = to_float (sum_list (map price (filter_id_in S ids))),
                   songs_purchased = filter_id_in S ids,
                   payment_info = r \<rparr>) 200)"
proof -
  have l: "length (filter_id_in S ids) = length ids"
    using length_filter_id_in[OF assms(1), of ids] assms(3,4) by simp
  show ?thesis
    unfolding purchase_JList[OF assms(2)] purchase_try_def Let_def
    by (simp add: l py_sum_sum_list get_payment_gateway_def)
qed

text \<open>The end-to-end examples: 3.00 and 4.00 are paid as 7.00 through the cheap gateway,
  two songs at 5.00 as exactly 10.00 through the expensive one.\<close>

lemma purchase_example_7:
  "\<exists>ok. purchase (\<lambda>r. r) 0 test_songs (JObj [(''song_ids'', JList [1, 2])]) =
            Inr (Response (PurchaseData ok) 200) \<and>
        total_price ok = 7 \<and> gateway (payment_info ok) = ''CheapPaymentGateway'' \<and>
        map song_id (songs_purchased ok) = [2, 1]"
  by (simp add: purchase_def dict_get_def purchase_try_def filter_id_in_def test_songs_def
        mk_song_def py_sum_def get_payment_gateway_def)

lemma purchase_example_10:
  "\<exists>ok. purchase (\<lambda>r. r) 0 test_songs (JObj [(''song_ids'', JList [4, 5])]) =
            Inr (Response (PurchaseData ok) 200) \<and>
        total_price ok = 10 \<and> gateway (payment_info ok) = ''ExpensivePaymentGateway'' \<and>
        premium_features (payment_info ok) = Some True"
  by (simp add: purchase_def dict_get_def purchase_try_def filter_id_in_def test_songs_def
        mk_song_def py_sum_def get_payment_gateway_def)

text \<open>
  C4. On a non-empty list of identifiers the endpoint should answer not-found if and only
  if some identifier is not stored, and otherwise go on to the payment. The code compares
  the number of rows found with the length of the list, so a list that repeats a stored
  identifier is answered 404 with an empty set of missing identifiers: here \<open>[1, 1]\<close>,
  where song 1 is stored.
\<close>

theorem purchase_repeated_id_not_found:
  "set [1, 1] \<subseteq> song_id ` set test_songs \<and>
   purchase (\<lambda>r. r) 0 test_songs (JObj [(''song_ids'', JList [1, 1])]) =
     Inr (Response (NotFoundData {}) 404)"
  by (simp add: purchase_def dict_get_def purchase_try_def filter_id_in_def test_songs_def
        mk_song_def)

text \<open>
  C5. A request whose identifiers all resolve should get the success response with the
  total, the songs and the gateway's result. For the request \<open>[4, 4]\<close> (song 4 is stored,
  at 5.00) there is no success response: the status is 404 and the body is the not-found
  body, so no total is computed and no gateway is called.
\<close>

theorem purchase_repeated_id_no_success:
  "set [4, 4] \<subseteq> song_id ` set test_songs \<and>
   (\<exists>resp. purchase (\<lambda>r. r) 0 test_songs (JObj [(''song_ids'', JList [4, 4])]) = Inr resp \<and>
          status_code resp = 404 \<and> data resp = NotFoundData {})"
  by (simp add: purchase_def dict_get_def purchase_try_def filter_id_in_def test_songs_def
        mk_song_def)

text \<open>
  On a body that is a JSON object the two checks answer 400 whenever \<open>song_ids\<close> is absent,
  is the empty list, or is not a list; they come before every read of the table.
\<close>

lemma purchase_validation_object_body:
  assumes "map_of (rev d) ''song_ids'' = None \<or>
           map_of (rev d) ''song_ids'' = Some (JList []) \<or>
           (\<exists>v. map_of (rev d) ''song_ids'' = Some v \<and> \<not> isinstance_list v)"
  shows "\<exists>msg. purchase to_float oid S (JObj d) = Inr (Response (ErrorData msg) 400)"
  using assms
proof (elim disjE exE conjE)
  assume "map_of (rev d) ''song_ids'' = None"
  then show ?thesis by (simp add: purchase_def dict_get_def)
next
  assume "map_of (rev d) ''song_ids'' = Some (JList [])"
  then show ?thesis by (simp add: purchase_def dict_get_def)
next
  fix v
  assume "map_of (rev d) ''song_ids'' = Some v" and "\<not> isinstance_list v"
  then show ?thesis by (cases v) (simp_all add: purchase_def dict_get_def)
qed

text \<open>The requests of the repository's tests: the empty object, the empty list and a
  string under \<open>song_ids\<close>.\<close>

lemma purchase_validation_examples:
  "purchase (\<lambda>r. r) 0 test_songs (JObj []) =
     Inr (Response (ErrorData ''Please provide song_ids list'') 400) \<and>
   purchase (\<lambda>r. r) 0 test_songs (JObj [(''song_ids'', JList [])]) =
     Inr (Response (ErrorData ''Please provide song_ids list'') 400) \<and>
   purchase (\<lambda>r. r) 0 test_songs (JObj [(''song_ids'', JStr ''not-a-list'')]) =
     Inr (Response (ErrorData ''song_ids must be a list'') 400)"
  by (simp add: purchase_def dict_get_def)

text \<open>The view raises exactly on the bodies that are not JSON objects.\<close>

lemma purchase_raises_iff:
  "(purchase to_float oid S body = Inl AttributeError) = (\<forall>d. body \<noteq> JObj d)"
  by (cases body) (simp_all add: purchase_def Let_def split: json.splits)

text \<open>
  C7. A request in which \<open>song_ids\<close> is absent, is the empty list or is not a list should
  be answered 400 and never crash. A request whose body is not a JSON object has no
  \<open>song_ids\<close>: for the bodies \<open>[1, 2]\<close>, \<open>null\<close> and \<open>"song_ids"\<close> the view does not answer
  400, it raises \<open>AttributeError\<close> from its first statement, outside the \<open>try\<close> block.
\<close>

theorem purchase_non_object_body_raises:
  "purchase (\<lambda>r. r) 0 test_songs (JList [1, 2]) = Inl AttributeError \<and>
   purchase (\<lambda>r. r) 0 test_songs JNull = Inl AttributeError \<and>
   purchase (\<lambda>r. r) 0 test_songs (JStr ''song_ids'') = Inl AttributeError"
  by (simp add: purchase_def)


section \<open>Transaction identifiers\<close>

text \<open>
  C3. Two sequential calls of \<open>process_payment\<close> should never return the same
  \<open>transaction_id\<close>. The identifier is built from the gateway's prefix, the identity of a
  temporary object and the amount in cents, and the code holds no counter or state between
  calls. The temporary object is freed before the call returns, so once the first result
  is released the runtime can give the next temporary object the same identity. Two calls
  with the arguments of the repository's test \<open>test_transaction_id_uniqueness\<close> (cheap
  gateway, 5.00, lists \<open>[1]\<close> and \<open>[2]\<close>) and the same identity return the same string.
\<close>

theorem transaction_id_repeats:
  "\<exists>r1 r2. process_payment (\<lambda>r. r) 140234 CheapPaymentGateway 5 [1] = Inr r1 \<and>
           process_payment (\<lambda>r. r) 140234 CheapPaymentGateway 5 [2] = Inr r2 \<and>
           transaction_id r1 = ''CHEAP-140234-500'' \<and>
           transaction_id r2 = ''CHEAP-140234-500'' \<and>
           transaction_id r1 = transaction_id r2"
  by (simp add: str_nat.simps str_int_def py_int_def digit_char_def)


section \<open>Playlist totals\<close>

text \<open>
  C10. \<open>get_total_duration\<close> is the integer sum of the lengths of the member songs and
  \<open>get_total_price\<close> the exact sum of their prices; for a playlist without members they
  are \<open>0\<close> and \<open>0.00\<close>. Both are functions of the database that return a number only:
  they write nothing and have no failing branch.
\<close>

theorem playlist_totals:
  "get_total_duration d p = sum_list (map song_length (songs_all d p)) \<and>
   get_total_price d p = sum_list (map price (songs_all d p)) \<and>
   get_total_duration d (p\<lparr>members := {}\<rparr>) = 0 \<and>
   get_total_price d (p\<lparr>members := {}\<rparr>) = 0"
  by (simp add: get_total_duration_def get_total_price_def py_sum_sum_list songs_all_def)

text \<open>The playlist of the model tests: 180 + 200 + 240 seconds, 3.00 + 4.00 + 12.00.\<close>

lemma playlist_totals_example:
  "get_total_duration test_db (mk_playlist ''My Playlist'' {1, 2, 3}) = 620 \<and>
   get_total_price test_db (mk_playlist ''My Playlist'' {1, 2, 3}) = 19"
  by (simp add: get_total_duration_def get_total_price_def py_sum_def songs_all_def
        test_db_def test_songs_def mk_song_def mk_playlist_def)


section \<open>Shuffle\<close>

text \<open>\<open>random.shuffle\<close> only swaps elements, so its result is a permutation.\<close>

lemma mset_shuffle_loop: "n < length x \<Longrightarrow> mset (shuffle_loop rnd n x) = mset x"
proof (induction n arbitrary: x)
  case 0
  then show ?case by simp
next
  case (Suc k)
  let ?j = "rnd (Suc k) mod (Suc k + 1)"
  have j: "?j < length x"
    using Suc.prems by (simp add: less_le_trans[OF mod_less_divisor])
  have "mset (x[Suc k := x ! ?j, ?j := x ! Suc k]) = mset x"
    using j Suc.prems by (rule mset_swap)
  moreover have "k < length (x[Suc k := x ! ?j, ?j := x ! Suc k])"
    using Suc.prems by simp
  ultimately show ?case using Suc.IH by (simp add: Let_def)
qed

lemma mset_random_shuffle: "mset (random_shuffle rnd x) = mset x"
proof (cases x)
  case Nil
  then show ?thesis by (simp add: random_shuffle_def)
next
  case (Cons a as)
  then show ?thesis by (simp add: random_shuffle_def mset_shuffle_loop)
qed

lemma set_random_shuffle: "set (random_shuffle rnd x) = set x"
  using mset_random_shuffle[of rnd x] by (metis set_mset_mset)

lemma Song_table_save [simp]: "Song_table (save_playlist d pk q) = Song_table d"
  by (simp add: save_playlist_def)

lemma members_songs_set: "members (songs_set q xs) = song_id ` set xs"
  by (simp add: songs_set_def)

text \<open>A playlist whose association holds exactly the keys of the songs another playlist
  had joins to the same songs.\<close>

lemma songs_all_rejoin:
  assumes "Song_table d' = Song_table d" and "members q = song_id ` set (songs_all d p)"
  shows "songs_all d' q = songs_all d p"
  unfolding songs_all_def assms(1)
proof (rule filter_cong[OF refl])
  fix s assume s: "s \<in> set (Song_table d)"
  show "(song_id s \<in> members q) = (song_id s \<in> members p)"
    using s by (auto simp: assms(2) songs_all_def)
qed

text \<open>The two branches of \<open>shuffle\<close> on an existing playlist.\<close>

lemma shuffle_small:
  assumes "Playlist_table d pk = Some p" and "length (songs_all d p) < 2"
  shows "shuffle to_float rnd d pk =
     (Inr (Response \<lparr> sh_message = ''Playlist has fewer than 2 songs, no shuffle needed'',
                     sh_playlist = None \<rparr> 200), d)"
  using assms by (simp add: shuffle_def)

lemma shuffle_big:
  assumes "Playlist_table d pk = Some p" and "\<not> length (songs_all d p) < 2"
  shows "shuffle to_float rnd d pk =
     (let pl2 = songs_set (songs_clear p) (random_shuffle rnd (songs_all d p));
          d2 = save_playlist (save_playlist d pk (songs_clear p)) pk pl2
      in (Inr (Response \<lparr> sh_message = ''Playlist shuffled successfully'',
                     sh_playlist = Some (PlaylistSerializer to_float d2 pk pl2) \<rparr> 200), d2))"
  using assms by (simp add: shuffle_def Let_def)

lemma shuffle_big_state:
  fixes rnd :: "nat \<Rightarrow> nat"
  assumes "Playlist_table d pk = Some p" and "\<not> length (songs_all d p) < 2"
  defines "pl2 \<equiv> songs_set (songs_clear p) (random_shuffle rnd (songs_all d p))"
  shows "Playlist_table (snd (shuffle to_float rnd d pk)) pk = Some pl2"
    and "songs_all (snd (shuffle to_float rnd d pk)) pl2 = songs_all d p"
    and "fst (shuffle to_float rnd d pk) =
           Inr (Response \<lparr> sh_message = ''Playlist shuffled successfully'',
                  sh_playlist = Some (PlaylistSerializer to_float
                                        (snd (shuffle to_float rnd d pk)) pk pl2) \<rparr> 200)"
proof -
  let ?d2 = "save_playlist (save_playlist d pk (songs_clear p)) pk pl2"
  have sn: "snd (shuffle to_float rnd d pk) = ?d2"
    by (simp add: shuffle_big[OF assms(1,2)] Let_def pl2_def)
  show "Playlist_table (snd (shuffle to_float rnd d pk)) pk = Some pl2"
    unfolding sn by (simp add: save_playlist_def)
  have mem: "members pl2 = song_id ` set (songs_all d p)"
    by (simp add: pl2_def members_songs_set set_random_shuffle)
  show "songs_all (snd (shuffle to_float rnd d pk)) pl2 = songs_all d p"
    unfolding sn by (rule songs_all_rejoin) (simp_all add: mem)
  show "fst (shuffle to_float rnd d pk) =
           Inr (Response \<lparr> sh_message = ''Playlist shuffled successfully'',
                  sh_playlist = Some (PlaylistSerializer to_float
                                        (snd (shuffle to_float rnd d pk)) pk pl2) \<rparr> 200)"
    unfolding sn by (simp add: shuffle_big[OF assms(1,2)] Let_def pl2_def)
qed

text \<open>
  C8. Shuffle keeps the member songs of every existing playlist. With fewer than two
  songs the response is the 200 with the message \<open>no shuffle needed\<close> and the database is
  unchanged. With two or more, the association is replaced by the keys of the shuffled
  list, which is a permutation of the member list, and the songs of the playlist after
  the call are the songs before it.
\<close>

theorem shuffle_preserves_members:
  assumes "Playlist_table d pk = Some p"
  shows "\<exists>p'. Playlist_table (snd (shuffle to_float rnd d pk)) pk = Some p' \<and>
          set (songs_all (snd (shuffle to_float rnd d pk)) p') = set (songs_all d p) \<and>
          (if length (songs_all d p) < 2
           then shuffle to_float rnd d pk =
                  (Inr (Response
                     \<lparr> sh_message = ''Playlist has fewer than 2 songs, no shuffle needed'',
                       sh_playlist = None \<rparr> 200), d)
           else members p' = song_id ` set (random_shuffle rnd (songs_all d p)) \<and>
                mset (random_shuffle rnd (songs_all d p)) = mset (songs_all d p))"
proof (cases "length (songs_all d p) < 2")
  case True
  show ?thesis
    using True assms by (simp add: shuffle_small[OF assms True])
next
  case False
  note st = shuffle_big_state[OF assms False, where rnd = rnd and to_float = to_float]
  show ?thesis
    using False by (simp add: st(1,2) members_songs_set mset_random_shuffle)
qed

theorem shuffle_preserves_members_witness:
  "Playlist_table test_db 1 = Some (mk_playlist ''My Playlist'' {1, 2, 3}) \<and>
   map song_id (songs_all test_db (mk_playlist ''My Playlist'' {1, 2, 3})) = [3, 2, 1] \<and>
   (\<exists>p'. Playlist_table (snd (shuffle (\<lambda>r. r) (\<lambda>i. 7 * i + 3) test_db 1)) 1 = Some p' \<and>
         set (songs_all (snd (shuffle (\<lambda>r. r) (\<lambda>i. 7 * i + 3) test_db 1)) p') =
         set (songs_all test_db (mk_playlist ''My Playlist'' {1, 2, 3})))"
proof -
  have h: "Playlist_table test_db 1 = Some (mk_playlist ''My Playlist'' {1, 2, 3})"
    by (simp add: test_db_def)
  have l: "map song_id (songs_all test_db (mk_playlist ''My Playlist'' {1, 2, 3})) = [3, 2, 1]"
    by (simp add: songs_all_def test_db_def test_songs_def mk_song_def mk_playlist_def)
  from shuffle_preserves_members[OF h, of "\<lambda>r. r" "\<lambda>i. 7 * i + 3"] h l
  show ?thesis by blast
qed

text \<open>
  C9. Every successful shuffle response should hold a message and the refreshed playlist
  representation. It holds a message in every case. For a playlist of two or more songs
  it also holds the representation, serialised from the database after the shuffle, whose
  totals are the sums over the songs the playlist has then. For a playlist of fewer than
  two songs the function returns before serialising: the body has the message and no
  \<open>playlist\<close> key.
\<close>

theorem shuffle_response_contents:
  assumes "Playlist_table d pk = Some p"
  shows "\<exists>body. fst (shuffle to_float rnd d pk) = Inr (Response body 200) \<and>
          sh_message body \<noteq> [] \<and>
          (if length (songs_all d p) < 2
           then sh_playlist body = None
           else \<exists>p'. Playlist_table (snd (shuffle to_float rnd d pk)) pk = Some p' \<and>
                  sh_playlist body =
                    Some (PlaylistSerializer to_float (snd (shuffle to_float rnd d pk)) pk p') \<and>
                  pl_songs (PlaylistSerializer to_float (snd (shuffle to_float rnd d pk)) pk p') =
                    songs_all (snd (shuffle to_float rnd d pk)) p' \<and>
                  pl_total_duration
                      (PlaylistSerializer to_float (snd (shuffle to_float rnd d pk)) pk p') =
                    sum_list (map song_length (songs_all (snd (shuffle to_float rnd d pk)) p')) \<and>
                  pl_total_price
                      (PlaylistSerializer to_float (snd (shuffle to_float rnd d pk)) pk p') =
                    to_float (sum_list (map price (songs_all (snd (shuffle to_float rnd d pk)) p'))))"
proof (cases "length (songs_all d p) < 2")
  case True
  show ?thesis
    using True by (simp add: shuffle_small[OF assms True])
next
  case False
  note st = shuffle_big_state[OF assms False, where rnd = rnd and to_float = to_float]
  have tot: "\<And>d' q. pl_songs (PlaylistSerializer to_float d' pk q) = songs_all d' q \<and>
      pl_total_duration (PlaylistSerializer to_float d' pk q) =
        sum_list (map song_length (songs_all d' q)) \<and>
      pl_total_price (PlaylistSerializer to_float d' pk q) =
        to_float (sum_list (map price (songs_all d' q)))"
    by (simp add: PlaylistSerializer_def get_total_duration_def get_total_price_def
          py_sum_sum_list)
  show ?thesis
    using False st(1) tot by (simp add: st(3))
qed

theorem shuffle_response_contents_witness:
  "Playlist_table test_db 1 = Some (mk_playlist ''My Playlist'' {1, 2, 3}) \<and>
   \<not> length (songs_all test_db (mk_playlist ''My Playlist'' {1, 2, 3})) < 2 \<and>
   (\<exists>body p'. fst (shuffle (\<lambda>r. r) (\<lambda>i. 7 * i + 3) test_db 1) = Inr (Response body 200) \<and>
         sh_message body \<noteq> [] \<and>
         sh_playlist body =
           Some (PlaylistSerializer (\<lambda>r. r) (snd (shuffle (\<lambda>r. r) (\<lambda>i. 7 * i + 3) test_db 1)) 1 p'))"
proof -
  have h: "Playlist_table test_db 1 = Some (mk_playlist ''My Playlist'' {1, 2, 3})"
    by (simp add: test_db_def)
  have l: "\<not> length (songs_all test_db (mk_playlist ''My Playlist'' {1, 2, 3})) < 2"
    by (simp add: songs_all_def test_db_def test_songs_def mk_song_def mk_playlist_def)
  from shuffle_response_contents[OF h, of "\<lambda>r. r" "\<lambda>i. 7 * i + 3"] l
  have "\<exists>body p'. fst (shuffle (\<lambda>r. r) (\<lambda>i. 7 * i + 3) test_db 1) = Inr (Response body 200) \<and>
         sh_message body \<noteq> [] \<and>
         sh_playlist body =
           Some (PlaylistSerializer (\<lambda>r. r) (snd (shuffle (\<lambda>r. r) (\<lambda>i. 7 * i + 3) test_db 1)) 1 p')"
    by (simp only: if_False) blast
  with h l show ?thesis by blast
qed

text \<open>The playlist with the single song 1: the response is successful and its body has no
  playlist representation.\<close>

theorem shuffle_single_song_no_playlist:
  "Playlist_table test_db 2 \<noteq> None \<and>
   (\<exists>body. shuffle (\<lambda>r. r) (\<lambda>i. 0) test_db 2 = (Inr (Response body 200), test_db) \<and>
          sh_playlist body = None)"
  by (simp add: shuffle_def test_db_def songs_all_def test_songs_def mk_song_def mk_playlist_def)

end
